theory Spec2Isabelle
  imports Main
begin

section \<open>The SimpleImage tool: data, host and browser\<close>

text \<open>
  The repository holds three revisions of the class \<open>SimpleImage\<close>:
  \<^item> \<open>part_000\<close>: the data is a plain property; the making of the image sits in a method
    \<open>makeImage\<close>, which \<open>render\<close> and the paste callback call as the bare identifier
    \<open>makeImage()\<close>;
  \<^item> \<open>part_001\<close>: the data sits behind a getter and a setter that merges and re-renders;
    there is no \<open>initialize\<close> and no \<open>onpaste\<close> hook;
  \<^item> \<open>part_002\<close> (a minified bundle): getter and setter, \<open>render\<close> in a \<open>try\<close>, and both hooks.
  The methods \<open>save\<close> and \<open>onDropHandler\<close> are the same text in all three. Definitions that
  differ carry the suffix \<open>_p0\<close>, \<open>_p1\<close> or \<open>_p2\<close>. A fourth file, \<open>dist/bundle.js\<close>, is the
  bundle of a later state of \<open>part_000\<close> in which both calls read \<open>this.makeImage()\<close>; it
  is not modelled.
\<close>

subsection \<open>JavaScript values and objects\<close>

datatype jsval = JUndefined | JStr string | JNum int

text \<open>An object is its own enumerable properties: a map from property names to values.\<close>

type_synonym jsobj = "string \<Rightarrow> jsval option"

text \<open>Reading a property that is missing gives \<open>undefined\<close>.\<close>

definition getprop :: "jsobj \<Rightarrow> string \<Rightarrow> jsval" where
  "getprop ob k = (case ob k of None \<Rightarrow> JUndefined | Some v \<Rightarrow> v)"

text \<open>The test of \<open>if (x)\<close>: \<open>undefined\<close>, the empty string and zero are falsy.\<close>

fun truthy :: "jsval \<Rightarrow> bool" where
  "truthy JUndefined = False"
| "truthy (JStr s) = (s \<noteq> [])"
| "truthy (JNum n) = (n \<noteq> 0)"

text \<open>
  \<open>Object.assign(target, source)\<close> copies every own property of the source onto the
  target: the properties of the source win, the others stay.
\<close>

definition assign :: "jsobj \<Rightarrow> jsobj \<Rightarrow> jsobj" where
  "assign target source = target ++ source"

datatype jserror = ReferenceError string | TypeError string | HostError string

subsection \<open>The DOM\<close>

text \<open>
  An element has a tag name (lower case, as an HTML document matches it), the value its
  \<open>src\<close> property reads as, and its children in document order.
\<close>

datatype element = Element (tagName: string) (src: string) (children: "element list")

text \<open>The descendants of an element in tree order, the element itself excluded.\<close>

fun descendants :: "element \<Rightarrow> element list" where
  "descendants (Element t s cs) = concat (map (\<lambda>c. c # descendants c) cs)"

text \<open>
  \<open>querySelector\<close> with a type selector: the first descendant in tree order with that tag
  name, \<open>null\<close> (here \<open>None\<close>) when there is none.
\<close>

definition querySelector :: "string \<Rightarrow> element \<Rightarrow> element option" where
  "querySelector sel e = find (\<lambda>x. tagName x = sel) (descendants e)"

subsection \<open>Host objects\<close>

text \<open>\<open>api.blocks.getCurrentBlockIndex()\<close> returns \<open>currentBlockIndex\<close>.\<close>

record api =
  currentBlockIndex :: int

text \<open>
  The host's configuration object. The slots \<open>initialize\<close> and \<open>onpaste\<close> hold a callback
  or are missing; the record says which are filled. The two callbacks are taken to
  return; their results are not used by the tool.
\<close>

record config =
  initialize :: bool
  onpaste :: bool

text \<open>
  The object literal handed to every host callback. A key the literal does not have, or
  whose value is \<open>undefined\<close>, is \<open>None\<close>. An image and its promise are named by the index
  of the image in \<open>images\<close>.
\<close>

record ctx =
  pluginId :: string
  pluginApi :: api
  pluginBlockIndex :: "int option"
  pluginData :: jsobj
  pluginUserConfig :: config
  pluginImage :: "nat option"
  pluginImagePromise :: "nat option"

text \<open>
  What the tool does in the host, in order: the callbacks it calls, what it logs with
  \<open>console.error\<close>, and what is thrown inside a chained callback, where nobody handles it.
\<close>

datatype call =
    Initialize ctx
  | View ctx
  | Onpaste ctx
  | ConsoleError jserror
  | Uncaught jserror

fun is_Initialize :: "call \<Rightarrow> bool" where
  "is_Initialize (Initialize c) = True"
| "is_Initialize _ = False"

fun is_View :: "call \<Rightarrow> bool" where
  "is_View (View c) = True"
| "is_View _ = False"

fun is_Onpaste :: "call \<Rightarrow> bool" where
  "is_Onpaste (Onpaste c) = True"
| "is_Onpaste _ = False"

text \<open>
  The behaviour of the host and of the browser: what \<open>config.view\<close> does with a context
  (it returns a view node or throws; a missing \<open>view\<close> is a callback that throws a
  \<open>TypeError\<close>), and the data URL that \<open>readAsDataURL\<close> produces for a file.
\<close>

record ('n, 'f) env =
  view :: "ctx \<Rightarrow> jserror + 'n"
  readAsDataURL :: "'f \<Rightarrow> string"

subsection \<open>Promises, images and file readers\<close>

datatype pvalue = PImage nat | PData jsobj

datatype pstate = Pending | Fulfilled pvalue | Rejected

text \<open>\<open>resolve\<close> and \<open>reject\<close> settle a pending promise and do nothing to a settled one.\<close>

definition resolve :: "pvalue \<Rightarrow> pstate \<Rightarrow> pstate" where
  "resolve v p = (if p = Pending then Fulfilled v else p)"

definition reject :: "pstate \<Rightarrow> pstate" where
  "reject p = (if p = Pending then Rejected else p)"

text \<open>
  An image element made by the tool: the value assigned to its \<open>src\<close>, and the promise
  made with it, which its \<open>onload\<close> handler resolves and its \<open>onerror\<close> handler rejects.
\<close>

record image =
  img_src :: jsval
  img_promise :: pstate

text \<open>
  A \<open>FileReader\<close> made by \<open>onDropHandler\<close>: the file it reads, the promise returned, which
  its \<open>onload\<close> handler resolves, and whether \<open>onPaste\<close> chained its \<open>then\<close> callback on it.
  No \<open>onerror\<close> handler is ever set.
\<close>

record 'f reader =
  rd_file :: 'f
  rd_promise :: pstate
  rd_then :: bool

subsection \<open>The tool\<close>

text \<open>
  The fields of the instance (\<open>data\<close> is \<open>this.data\<close> in \<open>part_000\<close> and \<open>this._data\<close>
  behind the getter in the other two), the images and readers it has made, and the calls it
  has made in the host.
\<close>

record 'f tool =
  tool_id :: string
  api :: api
  config :: config
  data :: jsobj
  blockIndex :: "int option"
  images :: "image list"
  readers :: "'f reader list"
  calls :: "call list"

datatype 'f paste_event = Tag element | Pattern string | File 'f | OtherType string

section \<open>Methods shared by the three revisions\<close>

text \<open>
  \<^verbatim>\<open>save(blockContent) { let image = blockContent.querySelector('img');
    if (!image) { return this.data; }
    return Object.assign(this.data, { url: image.src }); }\<close>
  \<open>Object.assign\<close> writes into the stored object and returns it.
\<close>

definition save :: "element \<Rightarrow> 'f tool \<Rightarrow> jsobj \<times> 'f tool" where
  "save blockContent t =
     (case querySelector ''img'' blockContent of
        None \<Rightarrow> (data t, t)
      | Some img \<Rightarrow>
          (let d = assign (data t) (Map.empty(''url'' \<mapsto> JStr (src img)))
           in (d, t\<lparr>data := d\<rparr>)))"

text \<open>
  \<^verbatim>\<open>onDropHandler(file) { const reader = new FileReader(); reader.readAsDataURL(file);
    return new Promise(resolve => { reader.onload = (event) => {
      resolve({ url: event.target.result }); }; }); }\<close>
  The promise returned is named by the index of the new reader.
\<close>

definition onDropHandler :: "'f \<Rightarrow> 'f tool \<Rightarrow> nat \<times> 'f tool" where
  "onDropHandler file t =
     (length (readers t),
      t\<lparr>readers := readers t @ [\<lparr>rd_file = file, rd_promise = Pending, rd_then = False\<rparr>]\<rparr>)"

text \<open>\<open>promise.then(cb)\<close> in \<open>onPaste\<close>: the callback is chained on the reader's promise.\<close>

definition chain_then :: "nat \<Rightarrow> 'f tool \<Rightarrow> 'f tool" where
  "chain_then r t =
     (if r < length (readers t)
      then t\<lparr>readers := (readers t)[r := (readers t ! r)\<lparr>rd_then := True\<rparr>]\<rparr>
      else t)"

text \<open>
  \<^verbatim>\<open>image = document.createElement('img'); image.src = this.data.url;
  imagePromise = new Promise((resolve, reject) => { image.onload = ...; image.onerror = reject; })\<close>
\<close>

definition new_image :: "jsval \<Rightarrow> 'f tool \<Rightarrow> nat \<times> 'f tool" where
  "new_image url t =
     (length (images t),
      t\<lparr>images := images t @ [\<lparr>img_src = url, img_promise = Pending\<rparr>]\<rparr>)"

text \<open>
  The \<open>onload\<close> handler of image \<open>i\<close>, run by the browser with the natural size of the
  loaded image:
  \<^verbatim>\<open>this._data.naturalWidth = image.naturalWidth;
  this._data.naturalHeight = image.naturalHeight; resolve(image);\<close>
  It writes into the stored object (no setter runs).
\<close>

definition image_onload :: "nat \<Rightarrow> nat \<Rightarrow> nat \<Rightarrow> 'f tool \<Rightarrow> 'f tool" where
  "image_onload i w h t =
     (if i < length (images t)
      then t\<lparr>data := (data t)(''naturalWidth'' \<mapsto> JNum (int w), ''naturalHeight'' \<mapsto> JNum (int h)),
             images := (images t)[i := (images t ! i)
                         \<lparr>img_promise := resolve (PImage i) (img_promise (images t ! i))\<rparr>]\<rparr>
      else t)"

text \<open>The \<open>onerror\<close> handler of image \<open>i\<close> is the promise's \<open>reject\<close>.\<close>

definition image_onerror :: "nat \<Rightarrow> 'f tool \<Rightarrow> 'f tool" where
  "image_onerror i t =
     (if i < length (images t)
      then t\<lparr>images := (images t)[i := (images t ! i)
                         \<lparr>img_promise := reject (img_promise (images t ! i))\<rparr>]\<rparr>
      else t)"

section \<open>Revision part_001\<close>

text \<open>
  \<^verbatim>\<open>render() { let image; let imagePromise;
    if (this.data.url) { image = ...; imagePromise = ...; }
    return this.config.view({ pluginId: this.id, pluginApi: this.api, pluginData: this.data,
      pluginUserConfig: this.config, pluginImage: image, pluginImagePromise: imagePromise }); }\<close>
  An exception of the callback leaves \<open>render\<close>.
\<close>

definition render_p1 :: "('n, 'f) env \<Rightarrow> 'f tool \<Rightarrow> (jserror + 'n) \<times> 'f tool" where
  "render_p1 e t =
     (let (im, t1) =
            (if truthy (getprop (data t) ''url'')
             then (let (i, t') = new_image (getprop (data t) ''url'') t in (Some i, t'))
             else (None, t));
          c = \<lparr>pluginId = tool_id t1, pluginApi = api t1, pluginBlockIndex = None,
               pluginData = data t1, pluginUserConfig = config t1,
               pluginImage = im, pluginImagePromise = im\<rparr>
      in (view e c, t1\<lparr>calls := calls t1 @ [View c]\<rparr>))"

text \<open>
  \<^verbatim>\<open>set data(data) { this._data = Object.assign({}, this.data, data);
    if (this.data.url) { this.render() } }\<close>
\<close>

definition set_data_p1 :: "('n, 'f) env \<Rightarrow> jsobj \<Rightarrow> 'f tool \<Rightarrow> (jserror + unit) \<times> 'f tool" where
  "set_data_p1 e d t =
     (let t1 = t\<lparr>data := assign (assign Map.empty (data t)) d\<rparr>
      in if truthy (getprop (data t1) ''url'')
         then (case render_p1 e t1 of
                 (Inl err, t2) \<Rightarrow> (Inl err, t2)
               | (Inr v, t2) \<Rightarrow> (Inr (), t2))
         else (Inr (), t1))"

text \<open>
  The constructor: \<open>this.id\<close> is a random string, here the argument \<open>rid\<close>. Before the
  first assignment \<open>this._data\<close> is \<open>undefined\<close>, which \<open>Object.assign\<close> skips as it skips
  an empty object. The assignment \<open>this.data = data\<close> runs the setter; if that throws,
  the constructor throws before it records the block index.
\<close>

definition constructor_p1 ::
  "('n, 'f) env \<Rightarrow> string \<Rightarrow> jsobj \<Rightarrow> config \<Rightarrow> api \<Rightarrow> (jserror + unit) \<times> 'f tool" where
  "constructor_p1 e rid d cfg ap =
     (let t0 = \<lparr>tool_id = rid, api = ap, config = cfg, data = Map.empty, blockIndex = None,
                images = [], readers = [], calls = []\<rparr>
      in case set_data_p1 e d t0 of
           (Inl err, t1) \<Rightarrow> (Inl err, t1)
         | (Inr u, t1) \<Rightarrow> (Inr (), t1\<lparr>blockIndex := Some (currentBlockIndex ap + 1)\<rparr>))"

definition onPaste_p1 ::
  "('n, 'f) env \<Rightarrow> 'f paste_event \<Rightarrow> 'f tool \<Rightarrow> (jserror + unit) \<times> 'f tool" where
  "onPaste_p1 e event t =
     (case event of
        Tag img \<Rightarrow> set_data_p1 e (Map.empty(''url'' \<mapsto> JStr (src img))) t
      | Pattern text \<Rightarrow> set_data_p1 e (Map.empty(''url'' \<mapsto> JStr text)) t
      | File file \<Rightarrow> (let (r, t1) = onDropHandler file t in (Inr (), chain_then r t1))
      | OtherType ty \<Rightarrow> (Inr (), t))"

text \<open>
  The callback chained in \<open>onPaste\<close>: \<^verbatim>\<open>data => { this.data = data; }\<close>. What it throws
  rejects the chained promise, which nobody handles.
\<close>

definition then_paste_p1 :: "('n, 'f) env \<Rightarrow> jsobj \<Rightarrow> 'f tool \<Rightarrow> 'f tool" where
  "then_paste_p1 e d t =
     (case set_data_p1 e d t of
        (Inl err, t1) \<Rightarrow> t1\<lparr>calls := calls t1 @ [Uncaught err]\<rparr>
      | (Inr u, t1) \<Rightarrow> t1)"

section \<open>Revision part_002\<close>

text \<open>
  \<open>render\<close> as in \<open>part_001\<close>, inside \<^verbatim>\<open>try { ... } catch (e) { console.error(e) }\<close>, and with
  \<open>pluginBlockIndex: this.blockIndex\<close> in the context. After the \<open>catch\<close> it returns
  \<open>undefined\<close> (\<open>None\<close>).
\<close>

definition render_p2 :: "('n, 'f) env \<Rightarrow> 'f tool \<Rightarrow> 'n option \<times> 'f tool" where
  "render_p2 e t =
     (let (im, t1) =
            (if truthy (getprop (data t) ''url'')
             then (let (i, t') = new_image (getprop (data t) ''url'') t in (Some i, t'))
             else (None, t));
          c = \<lparr>pluginId = tool_id t1, pluginApi = api t1, pluginBlockIndex = blockIndex t1,
               pluginData = data t1, pluginUserConfig = config t1,
               pluginImage = im, pluginImagePromise = im\<rparr>;
          t2 = t1\<lparr>calls := calls t1 @ [View c]\<rparr>
      in case view e c of
           Inr v \<Rightarrow> (Some v, t2)
         | Inl err \<Rightarrow> (None, t2\<lparr>calls := calls t2 @ [ConsoleError err]\<rparr>))"

definition set_data_p2 :: "('n, 'f) env \<Rightarrow> jsobj \<Rightarrow> 'f tool \<Rightarrow> 'f tool" where
  "set_data_p2 e d t =
     (let t1 = t\<lparr>data := assign (assign Map.empty (data t)) d\<rparr>
      in if truthy (getprop (data t1) ''url'') then snd (render_p2 e t1) else t1)"

text \<open>
  \<^verbatim>\<open>this.data = n, this.blockIndex = this.api.blocks.getCurrentBlockIndex() + 1,
  this.config.initialize && this.config.initialize({ pluginId: this.id, pluginApi: this.api,
    pluginBlockIndex: this.blockIndex, pluginData: this.data, pluginUserConfig: this.config })\<close>
\<close>

definition constructor_p2 ::
  "('n, 'f) env \<Rightarrow> string \<Rightarrow> jsobj \<Rightarrow> config \<Rightarrow> api \<Rightarrow> 'f tool" where
  "constructor_p2 e rid d cfg ap =
     (let t0 = \<lparr>tool_id = rid, api = ap, config = cfg, data = Map.empty, blockIndex = None,
                images = [], readers = [], calls = []\<rparr>;
          t1 = set_data_p2 e d t0;
          t2 = t1\<lparr>blockIndex := Some (currentBlockIndex ap + 1)\<rparr>
      in if initialize (config t2)
         then t2\<lparr>calls := calls t2 @
                [Initialize \<lparr>pluginId = tool_id t2, pluginApi = api t2,
                   pluginBlockIndex = blockIndex t2, pluginData = data t2,
                   pluginUserConfig = config t2, pluginImage = None,
                   pluginImagePromise = None\<rparr>]\<rparr>
         else t2)"

text \<open>
  The local function \<open>onpaste\<close> of \<open>onPaste\<close>:
  \<^verbatim>\<open>e.config.onpaste && e.config.onpaste({ pluginId: e.id, pluginApi: e.api,
    pluginBlockIndex: e.blockIndex, pluginData: e._data, pluginUserConfig: e.config })\<close>
\<close>

definition onpaste_p2 :: "'f tool \<Rightarrow> 'f tool" where
  "onpaste_p2 t =
     (if onpaste (config t)
      then t\<lparr>calls := calls t @
             [Onpaste \<lparr>pluginId = tool_id t, pluginApi = api t, pluginBlockIndex = blockIndex t,
                pluginData = data t, pluginUserConfig = config t, pluginImage = None,
                pluginImagePromise = None\<rparr>]\<rparr>
      else t)"

definition onPaste_p2 :: "('n, 'f) env \<Rightarrow> 'f paste_event \<Rightarrow> 'f tool \<Rightarrow> 'f tool" where
  "onPaste_p2 e event t =
     (case event of
        Tag img \<Rightarrow> onpaste_p2 (set_data_p2 e (Map.empty(''url'' \<mapsto> JStr (src img))) t)
      | Pattern text \<Rightarrow> onpaste_p2 (set_data_p2 e (Map.empty(''url'' \<mapsto> JStr text)) t)
      | File file \<Rightarrow> (let (r, t1) = onDropHandler file t in chain_then r t1)
      | OtherType ty \<Rightarrow> t)"

text \<open>The chained callback: \<^verbatim>\<open>function (t) { e.data = t, n() }\<close>.\<close>

definition then_paste_p2 :: "('n, 'f) env \<Rightarrow> jsobj \<Rightarrow> 'f tool \<Rightarrow> 'f tool" where
  "then_paste_p2 e d t = onpaste_p2 (set_data_p2 e d t)"

section \<open>Revision part_000\<close>

text \<open>
  \<^verbatim>\<open>this.id = ...; this.api = api; this.config = config; this.data = data;
  this.blockIndex = this.api.blocks.getCurrentBlockIndex() + 1;
  if (this.config.initialize) { this.config.initialize({ pluginId: this.id, pluginApi: this.api,
    pluginBlockIndex: this.blockIndex, pluginData: this.data, pluginUserConfig: this.config }); }\<close>
  There is no setter in this revision: the assignment stores the host's object.
\<close>

definition constructor_p0 :: "string \<Rightarrow> jsobj \<Rightarrow> config \<Rightarrow> api \<Rightarrow> 'f tool" where
  "constructor_p0 rid d cfg ap =
     (let t1 = \<lparr>tool_id = rid, api = ap, config = cfg, data = d,
                blockIndex = Some (currentBlockIndex ap + 1),
                images = [], readers = [], calls = []\<rparr>
      in if initialize (config t1)
         then t1\<lparr>calls := calls t1 @
                [Initialize \<lparr>pluginId = tool_id t1, pluginApi = api t1,
                   pluginBlockIndex = blockIndex t1, pluginData = data t1,
                   pluginUserConfig = config t1, pluginImage = None,
                   pluginImagePromise = None\<rparr>]\<rparr>
         else t1)"

text \<open>
  \<open>render\<close> and the paste callback call \<^verbatim>\<open>makeImage()\<close>, a bare identifier. The module
  binds no such name (\<open>makeImage\<close> is a method, reached only as \<open>this.makeImage\<close>), so
  evaluating the identifier throws a \<open>ReferenceError\<close> before anything is called. The
  result type is the one the destructuring \<^verbatim>\<open>const { image, imagePromise } = ...\<close> expects.
\<close>

definition call_makeImage_p0 :: "'f tool \<Rightarrow> jserror + ((nat option \<times> nat option) \<times> 'f tool)" where
  "call_makeImage_p0 t = Inl (ReferenceError ''makeImage'')"

text \<open>
  \<^verbatim>\<open>render() { try { const { image, imagePromise } = makeImage()
      return this.config.view({ ..., pluginImage: image, pluginImagePromise: imagePromise });
    } catch (e) { console.error(e); } }\<close>
\<close>

definition render_p0 :: "('n, 'f) env \<Rightarrow> 'f tool \<Rightarrow> 'n option \<times> 'f tool" where
  "render_p0 e t =
     (case call_makeImage_p0 t of
        Inl err \<Rightarrow> (None, t\<lparr>calls := calls t @ [ConsoleError err]\<rparr>)
      | Inr ((im, imPromise), t1) \<Rightarrow>
          (let c = \<lparr>pluginId = tool_id t1, pluginApi = api t1, pluginBlockIndex = blockIndex t1,
                    pluginData = data t1, pluginUserConfig = config t1,
                    pluginImage = im, pluginImagePromise = imPromise\<rparr>;
               t2 = t1\<lparr>calls := calls t1 @ [View c]\<rparr>
           in case view e c of
                Inr v \<Rightarrow> (Some v, t2)
              | Inl err \<Rightarrow> (None, t2\<lparr>calls := calls t2 @ [ConsoleError err]\<rparr>)))"

text \<open>
  The local function \<open>onpaste\<close> of \<open>onPaste\<close>:
  \<^verbatim>\<open>if (this.config.onpaste) { const { image, imagePromise } = makeImage()
    this.config.onpaste({ ..., pluginImage: image, pluginImagePromise: imagePromise }); }\<close>
\<close>

definition onpaste_p0 :: "'f tool \<Rightarrow> (jserror + unit) \<times> 'f tool" where
  "onpaste_p0 t =
     (if onpaste (config t)
      then (case call_makeImage_p0 t of
              Inl err \<Rightarrow> (Inl err, t)
            | Inr ((im, imPromise), t1) \<Rightarrow>
                (Inr (), t1\<lparr>calls := calls t1 @
                   [Onpaste \<lparr>pluginId = tool_id t1, pluginApi = api t1,
                      pluginBlockIndex = blockIndex t1, pluginData = data t1,
                      pluginUserConfig = config t1, pluginImage = im,
                      pluginImagePromise = imPromise\<rparr>]\<rparr>))
      else (Inr (), t))"

definition onPaste_p0 :: "'f paste_event \<Rightarrow> 'f tool \<Rightarrow> (jserror + unit) \<times> 'f tool" where
  "onPaste_p0 event t =
     (case event of
        Tag img \<Rightarrow> onpaste_p0 (t\<lparr>data := Map.empty(''url'' \<mapsto> JStr (src img))\<rparr>)
      | Pattern text \<Rightarrow> onpaste_p0 (t\<lparr>data := Map.empty(''url'' \<mapsto> JStr text)\<rparr>)
      | File file \<Rightarrow> (let (r, t1) = onDropHandler file t in (Inr (), chain_then r t1))
      | OtherType ty \<Rightarrow> (Inr (), t))"

text \<open>The chained callback: \<^verbatim>\<open>data => { this.data = data; onpaste(); }\<close>.\<close>

definition then_paste_p0 :: "jsobj \<Rightarrow> 'f tool \<Rightarrow> 'f tool" where
  "then_paste_p0 d t =
     (case onpaste_p0 (t\<lparr>data := d\<rparr>) of
        (Inl err, t1) \<Rightarrow> t1\<lparr>calls := calls t1 @ [Uncaught err]\<rparr>
      | (Inr u, t1) \<Rightarrow> t1)"

section \<open>What the host and the browser do to a tool\<close>

datatype revision = Rev000 | Rev001 | Rev002

text \<open>
  The host calls a method; the browser delivers the \<open>load\<close> or \<open>error\<close> event of a reader
  or of an image. \<open>ImageLoad i w h\<close> is the load of image \<open>i\<close> with natural size \<open>w\<close> by \<open>h\<close>.
\<close>

datatype 'f action =
    Render
  | Save element
  | OnPaste "'f paste_event"
  | OnDropHandler 'f
  | ReaderLoad nat
  | ReaderError nat
  | ImageLoad nat nat nat
  | ImageError nat

definition then_paste :: "revision \<Rightarrow> ('n, 'f) env \<Rightarrow> jsobj \<Rightarrow> 'f tool \<Rightarrow> 'f tool" where
  "then_paste rv e d t =
     (case rv of
        Rev000 \<Rightarrow> then_paste_p0 d t
      | Rev001 \<Rightarrow> then_paste_p1 e d t
      | Rev002 \<Rightarrow> then_paste_p2 e d t)"

text \<open>
  The \<open>onload\<close> handler of reader \<open>r\<close>: \<^verbatim>\<open>resolve({ url: event.target.result })\<close>, where the
  result is the data URL of the reader's file. Fulfilling the promise runs the chained
  callback, if there is one, before any other event is delivered.
\<close>

definition reader_onload :: "revision \<Rightarrow> ('n, 'f) env \<Rightarrow> nat \<Rightarrow> 'f tool \<Rightarrow> 'f tool" where
  "reader_onload rv e r t =
     (if r < length (readers t) \<and> rd_promise (readers t ! r) = Pending
      then (let rd = readers t ! r;
                d = Map.empty(''url'' \<mapsto> JStr (readAsDataURL e (rd_file rd)));
                t1 = t\<lparr>readers := (readers t)[r := rd\<lparr>rd_promise := resolve (PData d) (rd_promise rd)\<rparr>]\<rparr>
            in if rd_then rd then then_paste rv e d t1 else t1)
      else t)"

fun step :: "revision \<Rightarrow> ('n, 'f) env \<Rightarrow> 'f action \<Rightarrow> 'f tool \<Rightarrow> 'f tool" where
  "step Rev000 e Render t = snd (render_p0 e t)"
| "step Rev001 e Render t = snd (render_p1 e t)"
| "step Rev002 e Render t = snd (render_p2 e t)"
| "step rv e (Save blockContent) t = snd (save blockContent t)"
| "step Rev000 e (OnPaste event) t = snd (onPaste_p0 event t)"
| "step Rev001 e (OnPaste event) t = snd (onPaste_p1 e event t)"
| "step Rev002 e (OnPaste event) t = onPaste_p2 e event t"
| "step rv e (OnDropHandler file) t = snd (onDropHandler file t)"
| "step rv e (ReaderLoad r) t = reader_onload rv e r t"
| "step rv e (ReaderError r) t = t"
| "step rv e (ImageLoad i w h) t = image_onload i w h t"
| "step rv e (ImageError i) t = image_onerror i t"

fun run :: "revision \<Rightarrow> ('n, 'f) env \<Rightarrow> 'f action list \<Rightarrow> 'f tool \<Rightarrow> 'f tool" where
  "run rv e [] t = t"
| "run rv e (a # as) t = run rv e as (step rv e a t)"

section \<open>Properties and example inputs\<close>

text \<open>A record of the shape \<open>{url}\<close>: it has a \<open>url\<close> property that is a string.\<close>

definition url_shaped :: "jsobj \<Rightarrow> bool" where
  "url_shaped d = (case d ''url'' of Some (JStr s) \<Rightarrow> True | _ \<Rightarrow> False)"

fun is_ImageLoad :: "'f action \<Rightarrow> bool" where
  "is_ImageLoad (ImageLoad i w h) = True"
| "is_ImageLoad _ = False"

text \<open>
  A host whose view callback returns a node, a configuration with both hooks, saved data
  with a url, and the tools the constructors make of them. A file is given by its
  contents.
\<close>

definition example_env :: "(string, string) env" where
  "example_env =
     \<lparr>view = (\<lambda>c. Inr ''node''), readAsDataURL = (\<lambda>f. ''data:image/png;base64,'' @ f)\<rparr>"

definition example_config :: config where
  "example_config = \<lparr>initialize = True, onpaste = True\<rparr>"

definition example_api :: api where
  "example_api = \<lparr>currentBlockIndex = 3\<rparr>"

definition example_data :: jsobj where
  "example_data = Map.empty(''url'' \<mapsto> JStr ''http://h/a.png'')"

definition example_other_url :: jsobj where
  "example_other_url = Map.empty(''url'' \<mapsto> JStr ''http://h/d.png'')"

definition example_empty_url :: jsobj where
  "example_empty_url = Map.empty(''url'' \<mapsto> JStr [])"

definition example_img :: element where
  "example_img = Element ''img'' ''http://h/b.png'' []"

definition example_block :: element where
  "example_block =
     Element ''div'' [] [Element ''p'' [] [example_img], Element ''img'' ''http://h/c.png'' []]"

definition example_empty_block :: element where
  "example_empty_block = Element ''div'' [] []"

definition example_tool_p0 :: "string tool" where
  "example_tool_p0 = constructor_p0 ''k3x9'' example_data example_config example_api"

definition example_new_tool_p0 :: "string tool" where
  "example_new_tool_p0 = constructor_p0 ''k3x9'' Map.empty example_config example_api"

definition example_tool_p1 :: "string tool" where
  "example_tool_p1 =
     snd (constructor_p1 example_env ''k3x9'' example_data example_config example_api)"

definition example_loaded_tool_p1 :: "string tool" where
  "example_loaded_tool_p1 = image_onload 0 640 480 example_tool_p1"

text \<open>
  The tool of \<open>part_001\<close> after its first image has loaded and another url has been pasted,
  and the tool constructed from a record that an earlier \<open>save\<close> returned, sizes included.
\<close>

definition example_repasted_tool_p1 :: "string tool" where
  "example_repasted_tool_p1 =
     run Rev001 example_env [ImageLoad 0 640 480, OnPaste (Pattern ''http://h/d.png'')]
       example_tool_p1"

definition example_saved_data :: jsobj where
  "example_saved_data =
     Map.empty(''url'' \<mapsto> JStr ''http://h/a.png'', ''naturalWidth'' \<mapsto> JNum 640,
       ''naturalHeight'' \<mapsto> JNum 480)"

definition example_reopened_tool_p1 :: "string tool" where
  "example_reopened_tool_p1 =
     snd (constructor_p1 example_env ''k3x9'' example_saved_data example_config example_api)"

section \<open>What each action leaves alone\<close>

lemmas method_defs =
  save_def onDropHandler_def chain_then_def new_image_def image_onload_def image_onerror_def
  render_p1_def set_data_p1_def onPaste_p1_def then_paste_p1_def
  render_p2_def set_data_p2_def onpaste_p2_def onPaste_p2_def then_paste_p2_def
  call_makeImage_p0_def render_p0_def onpaste_p0_def onPaste_p0_def then_paste_p0_def
  then_paste_def reader_onload_def

lemmas example_defs =
  example_env_def example_config_def example_api_def example_data_def example_other_url_def
  example_empty_url_def example_img_def example_block_def example_empty_block_def
  example_tool_p0_def example_new_tool_p0_def example_tool_p1_def example_loaded_tool_p1_def
  example_repasted_tool_p1_def example_saved_data_def example_reopened_tool_p1_def
  constructor_p0_def constructor_p1_def

lemma run_append: "run rv e (as @ bs) t = run rv e bs (run rv e as t)"
  by (induction as arbitrary: t) simp_all

subsection \<open>Readers and their promises\<close>

lemma then_paste_readers: "readers (then_paste rv e d t) = readers t"
  by (cases rv) (simp_all add: method_defs Let_def split: prod.splits sum.splits)

text \<open>
  An action keeps every reader in place with its file. The only action that changes the
  promise of reader \<open>r\<close> is the load event of \<open>r\<close> while the promise is pending, and it
  fulfils the promise with the data URL of the file.
\<close>

lemma step_reader:
  assumes "r < length (readers t)"
  shows "r < length (readers (step rv e a t)) \<and>
         rd_file (readers (step rv e a t) ! r) = rd_file (readers t ! r) \<and>
         (if a = ReaderLoad r \<and> rd_promise (readers t ! r) = Pending
          then rd_promise (readers (step rv e a t) ! r) =
                 Fulfilled (PData (Map.empty(''url'' \<mapsto>
                   JStr (readAsDataURL e (rd_file (readers t ! r))))))
          else rd_promise (readers (step rv e a t) ! r) = rd_promise (readers t ! r))"
proof (cases a)
  case Render
  then show ?thesis using assms
    by (cases rv) (simp_all add: method_defs Let_def split: prod.splits sum.splits)
next
  case (Save bc)
  then show ?thesis using assms
    by (simp add: method_defs Let_def split: option.splits)
next
  case (OnPaste ev)
  then show ?thesis using assms
    by (cases rv; cases ev)
       (simp_all add: method_defs Let_def nth_append split: prod.splits sum.splits)
next
  case (OnDropHandler f)
  then show ?thesis using assms by (simp add: method_defs nth_append)
next
  case (ReaderLoad r')
  then show ?thesis using assms
    by (auto simp: reader_onload_def then_paste_readers resolve_def Let_def nth_list_update)
next
  case (ReaderError r')
  then show ?thesis using assms by simp
next
  case (ImageLoad i w h)
  then show ?thesis using assms by (simp add: method_defs)
next
  case (ImageError i)
  then show ?thesis using assms by (simp add: method_defs)
qed

lemma run_reader_pending:
  "r < length (readers t) \<Longrightarrow> rd_promise (readers t ! r) = Pending \<Longrightarrow>
   ReaderLoad r \<notin> set as \<Longrightarrow>
     r < length (readers (run rv e as t)) \<and>
     rd_promise (readers (run rv e as t) ! r) = Pending \<and>
     rd_file (readers (run rv e as t) ! r) = rd_file (readers t ! r)"
proof (induction as arbitrary: t)
  case Nil
  then show ?case by simp
next
  case (Cons a as)
  from Cons.prems have "a \<noteq> ReaderLoad r" by auto
  with step_reader [OF Cons.prems(1), of rv e a]
  have "r < length (readers (step rv e a t))"
    "rd_promise (readers (step rv e a t) ! r) = Pending"
    "rd_file (readers (step rv e a t) ! r) = rd_file (readers t ! r)"
    using Cons.prems(2) by simp_all
  with Cons.IH [of "step rv e a t"] Cons.prems(3) show ?case by simp
qed

lemma run_reader_settled:
  "r < length (readers t) \<Longrightarrow> rd_promise (readers t ! r) \<noteq> Pending \<Longrightarrow>
     r < length (readers (run rv e as t)) \<and>
     rd_promise (readers (run rv e as t) ! r) = rd_promise (readers t ! r)"
proof (induction as arbitrary: t)
  case Nil
  then show ?case by simp
next
  case (Cons a as)
  from step_reader [OF Cons.prems(1), of rv e a] Cons.prems(2)
  have "r < length (readers (step rv e a t))"
    "rd_promise (readers (step rv e a t) ! r) = rd_promise (readers t ! r)"
    by simp_all
  with Cons.IH [of "step rv e a t"] Cons.prems(2) show ?case by simp
qed

lemma run_reader_not_rejected:
  "r < length (readers t) \<Longrightarrow> rd_promise (readers t ! r) \<noteq> Rejected \<Longrightarrow>
     r < length (readers (run rv e as t)) \<and>
     rd_promise (readers (run rv e as t) ! r) \<noteq> Rejected"
proof (induction as arbitrary: t)
  case Nil
  then show ?case by simp
next
  case (Cons a as)
  from step_reader [OF Cons.prems(1), of rv e a] Cons.prems(2)
  have "r < length (readers (step rv e a t))"
    "rd_promise (readers (step rv e a t) ! r) \<noteq> Rejected"
    by (auto split: if_splits)
  with Cons.IH [of "step rv e a t"] show ?case by simp
qed

lemma onDropHandler_new:
  "onDropHandler file t = (r, t1) \<Longrightarrow>
     r < length (readers t1) \<and> rd_file (readers t1 ! r) = file \<and>
     rd_promise (readers t1 ! r) = Pending \<and> rd_then (readers t1 ! r) = False"
  by (auto simp: onDropHandler_def)

subsection \<open>The data record\<close>

lemma set_data_p1_data: "data (snd (set_data_p1 e d t)) = assign (data t) d"
  by (simp add: method_defs Let_def assign_def split: prod.splits sum.splits)

lemma set_data_p2_data: "data (set_data_p2 e d t) = assign (data t) d"
  by (simp add: method_defs Let_def assign_def split: prod.splits sum.splits)

lemma then_paste_data_other:
  "k \<noteq> ''url'' \<Longrightarrow> data t k = None \<Longrightarrow>
     data (then_paste rv e (Map.empty(''url'' \<mapsto> u)) t) k = None"
  by (cases rv)
     (simp_all add: method_defs Let_def assign_def map_add_def split: prod.splits sum.splits)

text \<open>No action but the load of an image adds a property other than \<open>url\<close>.\<close>

lemma step_natural_absent:
  assumes "\<not> is_ImageLoad a" and "k \<noteq> ''url''" and "data t k = None"
  shows "data (step rv e a t) k = None"
proof (cases a)
  case Render
  then show ?thesis using assms
    by (cases rv) (simp_all add: method_defs Let_def split: prod.splits sum.splits)
next
  case (Save bc)
  then show ?thesis using assms
    by (simp add: method_defs Let_def assign_def split: option.splits)
next
  case (OnPaste ev)
  then show ?thesis using assms
    by (cases rv; cases ev)
       (simp_all add: method_defs Let_def assign_def map_add_def split: prod.splits sum.splits)
next
  case (OnDropHandler f)
  then show ?thesis using assms by (simp add: method_defs)
next
  case (ReaderLoad r)
  then show ?thesis using assms
    by (simp add: reader_onload_def then_paste_data_other Let_def)
next
  case (ReaderError r)
  then show ?thesis using assms by simp
next
  case (ImageLoad i w h)
  then show ?thesis using assms by simp
next
  case (ImageError i)
  then show ?thesis using assms by (simp add: method_defs)
qed

lemma run_natural_absent:
  "\<forall>a\<in>set as. \<not> is_ImageLoad a \<Longrightarrow> k \<noteq> ''url'' \<Longrightarrow> data t k = None \<Longrightarrow>
     data (run rv e as t) k = None"
  by (induction as arbitrary: t) (simp_all add: step_natural_absent)

text \<open>
  With the setter (\<open>part_001\<close>, \<open>part_002\<close>) no action but the load of an image changes a
  property other than \<open>url\<close>, present or absent.
\<close>

lemma then_paste_data_frame:
  "rv \<noteq> Rev000 \<Longrightarrow> k \<noteq> ''url'' \<Longrightarrow>
     data (then_paste rv e (Map.empty(''url'' \<mapsto> u)) t) k = data t k"
  by (cases rv)
     (simp_all add: method_defs Let_def assign_def map_add_def split: prod.splits sum.splits)

lemma step_natural_frame:
  assumes "rv \<noteq> Rev000" and "\<not> is_ImageLoad a" and "k \<noteq> ''url''"
  shows "data (step rv e a t) k = data t k"
proof (cases a)
  case Render
  then show ?thesis using assms
    by (cases rv) (simp_all add: method_defs Let_def split: prod.splits sum.splits)
next
  case (Save bc)
  then show ?thesis using assms
    by (simp add: method_defs Let_def assign_def split: option.splits)
next
  case (OnPaste ev)
  then show ?thesis using assms
    by (cases rv; cases ev)
       (simp_all add: method_defs Let_def assign_def map_add_def split: prod.splits sum.splits)
next
  case (OnDropHandler f)
  then show ?thesis using assms by (simp add: method_defs)
next
  case (ReaderLoad r)
  then show ?thesis using assms
    by (simp add: reader_onload_def then_paste_data_frame Let_def)
next
  case (ReaderError r)
  then show ?thesis using assms by simp
next
  case (ImageLoad i w h)
  then show ?thesis using assms by simp
next
  case (ImageError i)
  then show ?thesis using assms by (simp add: method_defs)
qed

lemma run_natural_frame:
  "rv \<noteq> Rev000 \<Longrightarrow> \<forall>a\<in>set as. \<not> is_ImageLoad a \<Longrightarrow> k \<noteq> ''url'' \<Longrightarrow>
     data (run rv e as t) k = data t k"
  by (induction as arbitrary: t) (simp_all add: step_natural_frame)

lemma image_onload_natural:
  "i < length (images t) \<Longrightarrow>
     data (image_onload i w h t) ''naturalWidth'' = Some (JNum (int w)) \<and>
     data (image_onload i w h t) ''naturalHeight'' = Some (JNum (int h))"
  by (simp add: image_onload_def)

subsection \<open>Images\<close>

lemma then_paste_images:
  "n \<le> length (images t) \<Longrightarrow> n \<le> length (images (then_paste rv e d t))"
  by (cases rv) (simp_all add: method_defs Let_def split: prod.splits sum.splits)

lemma step_images_length: "length (images t) \<le> length (images (step rv e a t))"
proof (cases a)
  case Render
  then show ?thesis
    by (cases rv) (simp_all add: method_defs Let_def split: prod.splits sum.splits)
next
  case (Save bc)
  then show ?thesis by (simp add: method_defs Let_def split: option.splits)
next
  case (OnPaste ev)
  then show ?thesis
    by (cases rv; cases ev) (simp_all add: method_defs Let_def split: prod.splits sum.splits)
next
  case (ReaderLoad r)
  then show ?thesis by (simp add: reader_onload_def then_paste_images Let_def)
qed (simp_all add: method_defs)

lemma run_images_length: "length (images t) \<le> length (images (run rv e as t))"
proof (induction as arbitrary: t)
  case Nil
  then show ?case by simp
next
  case (Cons a as)
  have "length (images t) \<le> length (images (step rv e a t))" by (rule step_images_length)
  also have "\<dots> \<le> length (images (run rv e as (step rv e a t)))" by (rule Cons.IH)
  finally show ?case by simp
qed

text \<open>
  In \<open>part_000\<close> no action makes an image: a tool that comes from the constructor never
  holds one, so no load handler ever runs.
\<close>

lemma step_p0_images_length: "length (images (step Rev000 e a t)) = length (images t)"
proof (cases a)
  case (OnPaste ev)
  then show ?thesis
    by (cases ev) (simp_all add: method_defs Let_def split: prod.splits sum.splits)
next
  case (ReaderLoad r)
  then show ?thesis
    by (simp add: method_defs Let_def split: prod.splits sum.splits)
next
  case (Save bc)
  then show ?thesis by (simp add: method_defs Let_def split: option.splits)
qed (simp_all add: method_defs)

lemma run_p0_images_length: "length (images (run Rev000 e as t)) = length (images t)"
  by (induction as arbitrary: t) (simp_all add: step_p0_images_length)

lemma run_p0_no_image: "images (run Rev000 e as (constructor_p0 rid d cfg ap)) = []"
proof -
  have "length (images (constructor_p0 rid d cfg ap)) = 0"
    by (simp add: constructor_p0_def Let_def)
  then have "length (images (run Rev000 e as (constructor_p0 rid d cfg ap))) = 0"
    by (simp only: run_p0_images_length)
  then show ?thesis by simp
qed

text \<open>In the revisions with the image made in \<open>render\<close>, a render with a url makes one.\<close>

lemma render_makes_image:
  "rv \<noteq> Rev000 \<Longrightarrow> truthy (getprop (data t) ''url'') \<Longrightarrow>
     data (step rv e Render t) = data t \<and>
     images (step rv e Render t) =
       images t @ [\<lparr>img_src = getprop (data t) ''url'', img_promise = Pending\<rparr>]"
  by (cases rv) (simp_all add: method_defs Let_def split: prod.splits sum.splits)

subsection \<open>Calls in the host and the block index\<close>

lemma then_paste_calls:
  "\<exists>cs. calls (then_paste rv e d t) = calls t @ cs \<and> filter is_Initialize cs = []"
  by (cases rv) (simp_all add: method_defs Let_def split: prod.splits sum.splits)

lemma step_calls:
  "\<exists>cs. calls (step rv e a t) = calls t @ cs \<and> filter is_Initialize cs = []"
proof (cases a)
  case Render
  then show ?thesis
    by (cases rv) (simp_all add: method_defs Let_def split: prod.splits sum.splits)
next
  case (Save bc)
  then show ?thesis by (simp add: method_defs Let_def split: option.splits)
next
  case (OnPaste ev)
  then show ?thesis
    by (cases rv; cases ev) (simp_all add: method_defs Let_def split: prod.splits sum.splits)
next
  case (ReaderLoad r)
  then show ?thesis
    using then_paste_calls [of rv e _ "t\<lparr>readers := _\<rparr>"]
    by (simp add: reader_onload_def Let_def)
qed (simp_all add: method_defs)

lemma run_calls:
  "\<exists>cs. calls (run rv e as t) = calls t @ cs \<and> filter is_Initialize cs = []"
proof (induction as arbitrary: t)
  case Nil
  then show ?case by simp
next
  case (Cons a as)
  from step_calls [of rv e a t] obtain cs where
    cs: "calls (step rv e a t) = calls t @ cs" "filter is_Initialize cs = []" by blast
  from Cons.IH [of "step rv e a t"] obtain ds where
    ds: "calls (run rv e as (step rv e a t)) = calls (step rv e a t) @ ds"
      "filter is_Initialize ds = []" by blast
  from cs ds have "calls (run rv e (a # as) t) = calls t @ (cs @ ds)"
    "filter is_Initialize (cs @ ds) = []" by simp_all
  then show ?case by blast
qed

lemma then_paste_blockIndex: "blockIndex (then_paste rv e d t) = blockIndex t"
  by (cases rv) (simp_all add: method_defs Let_def split: prod.splits sum.splits)

lemma step_blockIndex: "blockIndex (step rv e a t) = blockIndex t"
proof (cases a)
  case Render
  then show ?thesis
    by (cases rv) (simp_all add: method_defs Let_def split: prod.splits sum.splits)
next
  case (Save bc)
  then show ?thesis by (simp add: method_defs Let_def split: option.splits)
next
  case (OnPaste ev)
  then show ?thesis
    by (cases rv; cases ev) (simp_all add: method_defs Let_def split: prod.splits sum.splits)
next
  case (ReaderLoad r)
  then show ?thesis by (simp add: reader_onload_def then_paste_blockIndex Let_def)
qed (simp_all add: method_defs)

lemma run_blockIndex: "blockIndex (run rv e as t) = blockIndex t"
  by (induction as arbitrary: t) (simp_all add: step_blockIndex)

section \<open>What the revisions do in closed form\<close>

text \<open>
  In \<open>part_000\<close> the identifier \<open>makeImage\<close> never resolves, so \<open>render\<close> always ends in its
  \<open>catch\<close> and the paste callback is never reached.
\<close>

lemma render_p0_eq:
  "render_p0 e t = (None, t\<lparr>calls := calls t @ [ConsoleError (ReferenceError ''makeImage'')]\<rparr>)"
  by (simp add: render_p0_def call_makeImage_p0_def)

lemma onpaste_p0_eq:
  "onpaste_p0 t = (if onpaste (config t) then Inl (ReferenceError ''makeImage'') else Inr (), t)"
  by (simp add: onpaste_p0_def call_makeImage_p0_def)

text \<open>
  In \<open>part_001\<close> \<open>render\<close> hands the context to the view callback and returns what the
  callback returns or throws; the image and its promise are in the context exactly when
  the url is truthy.
\<close>

lemma render_p1_result:
  "render_p1 e t =
     (let im = (if truthy (getprop (data t) ''url'') then Some (length (images t)) else None);
          c = \<lparr>pluginId = tool_id t, pluginApi = api t, pluginBlockIndex = None,
               pluginData = data t, pluginUserConfig = config t,
               pluginImage = im, pluginImagePromise = im\<rparr>
      in (view e c,
          t\<lparr>images := images t @
                (if truthy (getprop (data t) ''url'')
                 then [\<lparr>img_src = getprop (data t) ''url'', img_promise = Pending\<rparr>] else []),
            calls := calls t @ [View c]\<rparr>))"
  by (simp add: render_p1_def new_image_def Let_def)

lemma render_p2_result:
  "fst (render_p2 e t) =
     (let im = (if truthy (getprop (data t) ''url'') then Some (length (images t)) else None)
      in case view e \<lparr>pluginId = tool_id t, pluginApi = api t, pluginBlockIndex = blockIndex t,
               pluginData = data t, pluginUserConfig = config t,
               pluginImage = im, pluginImagePromise = im\<rparr> of
           Inr v \<Rightarrow> Some v | Inl err \<Rightarrow> None)"
  by (simp add: render_p2_def new_image_def Let_def split: sum.splits)

text \<open>
  In \<open>part_001\<close> and \<open>part_002\<close> the error event of the image just made rejects its promise
  and does nothing else: no image is added, no call is made, the data stay.
\<close>

lemma render_then_image_error:
  assumes "rv \<noteq> Rev000" and "truthy (getprop (data t) ''url'')"
  shows "images (step rv e (ImageError (length (images t))) (step rv e Render t)) =
           images t @ [\<lparr>img_src = getprop (data t) ''url'', img_promise = Rejected\<rparr>] \<and>
         calls (step rv e (ImageError (length (images t))) (step rv e Render t)) =
           calls (step rv e Render t) \<and>
         data (step rv e (ImageError (length (images t))) (step rv e Render t)) = data t"
  using assms
  by (cases rv)
     (simp_all add: method_defs reject_def Let_def split: prod.splits sum.splits)

text \<open>In every revision a paste stores the url of its event.\<close>

lemma onPaste_sets_url:
  "data (step rv e (OnPaste (Tag img)) t) ''url'' = Some (JStr (src img)) \<and>
   data (step rv e (OnPaste (Pattern text)) t) ''url'' = Some (JStr text)"
  by (cases rv)
     (simp_all add: method_defs onpaste_p0_eq assign_def Let_def split: prod.splits sum.splits)

lemma onPaste_file_sets_url:
  "data (step rv e (ReaderLoad (length (readers t))) (step rv e (OnPaste (File f)) t)) ''url'' =
     Some (JStr (readAsDataURL e f))"
  by (cases rv)
     (simp_all add: method_defs resolve_def assign_def Let_def split: prod.splits sum.splits)

text \<open>In \<open>part_002\<close> the paste callback, when supplied, is called after the update.\<close>

lemma onPaste_p2_callback:
  "onpaste (config t) \<Longrightarrow>
     filter is_Onpaste (calls (onPaste_p2 e (Tag img) t)) =
       filter is_Onpaste (calls t) @
         [Onpaste \<lparr>pluginId = tool_id t, pluginApi = api t, pluginBlockIndex = blockIndex t,
            pluginData = data t ++ Map.empty(''url'' \<mapsto> JStr (src img)),
            pluginUserConfig = config t, pluginImage = None, pluginImagePromise = None\<rparr>]"
  by (simp add: method_defs assign_def Let_def split: prod.splits sum.splits)

text \<open>
  The constructor of \<open>part_002\<close> records the block index and calls a supplied
  \<open>initialize\<close> once; with a url in the data the setter has rendered before, with the
  block index still unset.
\<close>

lemma constructor_p2_calls:
  "blockIndex (constructor_p2 e rid d cfg ap) = Some (currentBlockIndex ap + 1) \<and>
   filter is_Initialize (calls (constructor_p2 e rid d cfg ap)) =
     (if initialize cfg
      then [Initialize \<lparr>pluginId = rid, pluginApi = ap,
              pluginBlockIndex = Some (currentBlockIndex ap + 1), pluginData = d,
              pluginUserConfig = cfg, pluginImage = None, pluginImagePromise = None\<rparr>]
      else []) \<and>
   (truthy (getprop d ''url'') \<longrightarrow>
      hd (calls (constructor_p2 e rid d cfg ap)) =
        View \<lparr>pluginId = rid, pluginApi = ap, pluginBlockIndex = None, pluginData = d,
          pluginUserConfig = cfg, pluginImage = Some 0, pluginImagePromise = Some 0\<rparr>)"
  by (simp add: constructor_p2_def method_defs assign_def Let_def split: prod.splits sum.splits)

lemma find_first_match:
  "P x \<Longrightarrow> \<forall>y\<in>set pre. \<not> P y \<Longrightarrow> find P (pre @ x # post) = Some x"
  by (induction pre) auto

lemma querySelector_none:
  "(\<forall>x\<in>set (descendants bc). tagName x \<noteq> sel) \<Longrightarrow> querySelector sel bc = None"
  by (simp add: querySelector_def find_None_iff)

lemma querySelector_first:
  "descendants bc = pre @ x # post \<Longrightarrow> tagName x = sel \<Longrightarrow>
   \<forall>y\<in>set pre. tagName y \<noteq> sel \<Longrightarrow> querySelector sel bc = Some x"
  by (simp add: querySelector_def find_first_match)

section \<open>The claims\<close>

subsection \<open>C1: what save returns\<close>

text \<open>
  C1. If the block content has no \<open>img\<close> descendant, \<open>save\<close> returns the stored data
  record unchanged, and the result has the shape \<open>{url}\<close> exactly when the stored record
  has it. If it has one, \<open>save\<close> returns the stored record with \<open>url\<close> set to the \<open>src\<close> of
  the first \<open>img\<close> descendant in tree order; the record returned is the one stored
  afterwards, and it has the shape \<open>{url}\<close>.
\<close>

theorem save_result:
  "((\<forall>x\<in>set (descendants bc). tagName x \<noteq> ''img'') \<longrightarrow>
      save bc t = (data t, t) \<and> url_shaped (fst (save bc t)) = url_shaped (data t)) \<and>
   (descendants bc = pre @ img # post \<and> tagName img = ''img'' \<and>
      (\<forall>x\<in>set pre. tagName x \<noteq> ''img'') \<longrightarrow>
      fst (save bc t) = (data t)(''url'' \<mapsto> JStr (src img)) \<and>
      data (snd (save bc t)) = fst (save bc t) \<and>
      url_shaped (fst (save bc t)))"
  by (auto simp: save_def querySelector_none querySelector_first assign_def url_shaped_def
      Let_def)

theorem save_result_witness:
  "fst (save example_block example_tool_p0) =
     (data example_tool_p0)(''url'' \<mapsto> JStr ''http://h/b.png'') \<and>
   url_shaped (fst (save example_block example_tool_p0)) \<and>
   save example_empty_block example_tool_p0 = (data example_tool_p0, example_tool_p0)"
proof -
  have h1: "descendants example_block =
     [Element ''p'' [] [example_img]] @ example_img # [Element ''img'' ''http://h/c.png'' []] \<and>
     tagName example_img = ''img'' \<and>
     (\<forall>x\<in>set [Element ''p'' [] [example_img]]. tagName x \<noteq> ''img'')"
    by (simp add: example_block_def example_img_def)
  have h2: "\<forall>x\<in>set (descendants example_empty_block). tagName x \<noteq> ''img''"
    by (simp add: example_empty_block_def)
  have s: "src example_img = ''http://h/b.png''" by (simp add: example_img_def)
  from h1 h2 s
    save_result [of example_block example_tool_p0 "[Element ''p'' [] [example_img]]" example_img
      "[Element ''img'' ''http://h/c.png'' []]"]
    save_result [of example_empty_block example_tool_p0 "[]" example_img "[]"]
  show ?thesis by (simp add: url_shaped_def)
qed

text \<open>
  As the claim has it, the result has the shape \<open>{url}\<close> in both cases. A new block is
  constructed with an empty record; saved from content without an \<open>img\<close>, it returns that
  record, which has no \<open>url\<close>.
\<close>

theorem save_url_shape_counterexample:
  "querySelector ''img'' example_empty_block = None \<and>
   \<not> url_shaped (fst (save example_empty_block example_new_tool_p0))"
  by (simp add: save_def querySelector_def url_shaped_def example_defs Let_def)

subsection \<open>C2: paste events and the paste callback\<close>

text \<open>
  C2. A paste of type \<open>tag\<close> stores the \<open>src\<close> of the pasted element as url, one of type
  \<open>pattern\<close> the matched text, one of type \<open>file\<close> the record made from the file once the
  read completes (\<open>onPaste_sets_url\<close>, \<open>onPaste_file_sets_url\<close>); after each update the
  callback \<open>config.onpaste\<close>, when supplied, is to be called with the plugin context, as
  \<open>part_002\<close> does (\<open>onPaste_p2_callback\<close>). In \<open>part_000\<close>, with the callback supplied, a
  \<open>tag\<close> paste stores the url and then throws the \<open>ReferenceError\<close> of \<open>makeImage\<close>; the
  callback is not called. After a \<open>file\<close> paste and the load of its reader the same error
  is thrown inside the chained callback, and again the callback is not called.
\<close>

theorem onPaste_p0_never_reaches_callback:
  "onpaste (config example_tool_p0) \<and>
   fst (onPaste_p0 (Tag example_img) example_tool_p0) = Inl (ReferenceError ''makeImage'') \<and>
   data (snd (onPaste_p0 (Tag example_img) example_tool_p0)) ''url'' =
     Some (JStr ''http://h/b.png'') \<and>
   filter is_Onpaste (calls (snd (onPaste_p0 (Tag example_img) example_tool_p0))) = [] \<and>
   filter is_Onpaste
     (calls (run Rev000 example_env [OnPaste (File ''AAAA''), ReaderLoad 0] example_tool_p0)) = [] \<and>
   last (calls (run Rev000 example_env [OnPaste (File ''AAAA''), ReaderLoad 0] example_tool_p0)) =
     Uncaught (ReferenceError ''makeImage'')"
  by (simp add: example_defs method_defs resolve_def Let_def)

subsection \<open>C3: the image of a render and its error event\<close>

text \<open>
  C3. A render of a record with a nonempty url is to make an image element with that url
  as its \<open>src\<close> and hand its promise to the host; the error event of the image rejects
  that promise and nothing else happens, as in \<open>part_001\<close> and \<open>part_002\<close>
  (\<open>render_makes_image\<close>, \<open>render_then_image_error\<close>). In \<open>part_000\<close> a render of a record
  with a url makes no image and never calls the view callback: its last act is the
  \<open>console.error\<close> of the \<open>ReferenceError\<close>.
\<close>

theorem render_p0_makes_no_image:
  "truthy (getprop (data example_tool_p0) ''url'') \<and>
   images (snd (render_p0 example_env example_tool_p0)) = [] \<and>
   filter is_View (calls (snd (render_p0 example_env example_tool_p0))) = [] \<and>
   last (calls (snd (render_p0 example_env example_tool_p0))) =
     ConsoleError (ReferenceError ''makeImage'')"
  by (simp add: example_defs method_defs getprop_def assign_def Let_def)

subsection \<open>C4: the promise of onDropHandler\<close>

text \<open>
  C4. The promise that \<open>onDropHandler\<close> returns for a file is pending until the load
  event of its reader; from that event on, whatever else happens before and after, it is
  fulfilled with the record whose \<open>url\<close> is the data URL that \<open>readAsDataURL\<close> produced for
  the file.
\<close>

theorem onDropHandler_resolves:
  assumes "onDropHandler file t = (r, t1)" and "ReaderLoad r \<notin> set as"
  shows "rd_promise (readers (run rv e as t1) ! r) = Pending \<and>
         rd_promise (readers (run rv e (as @ ReaderLoad r # bs) t1) ! r) =
           Fulfilled (PData (Map.empty(''url'' \<mapsto> JStr (readAsDataURL e file))))"
proof -
  let ?t2 = "run rv e as t1"
  let ?t3 = "step rv e (ReaderLoad r) ?t2"
  from onDropHandler_new [OF assms(1)]
  have new: "r < length (readers t1)" "rd_promise (readers t1 ! r) = Pending"
    "rd_file (readers t1 ! r) = file" by simp_all
  from run_reader_pending [OF new(1) new(2) assms(2), of rv e]
  have t2: "r < length (readers ?t2)" "rd_promise (readers ?t2 ! r) = Pending"
    "rd_file (readers ?t2 ! r) = file" using new(3) by simp_all
  from step_reader [OF t2(1), of rv e "ReaderLoad r"] t2
  have t3: "r < length (readers ?t3)"
    "rd_promise (readers ?t3 ! r) =
       Fulfilled (PData (Map.empty(''url'' \<mapsto> JStr (readAsDataURL e file))))"
    by simp_all
  from run_reader_settled [OF t3(1), of rv e bs] t3(2)
  have "rd_promise (readers (run rv e bs ?t3) ! r) =
          Fulfilled (PData (Map.empty(''url'' \<mapsto> JStr (readAsDataURL e file))))"
    by simp
  then show ?thesis using t2(2) by (simp add: run_append)
qed

theorem onDropHandler_resolves_witness:
  "onDropHandler ''AAAA'' example_tool_p1 = (0, snd (onDropHandler ''AAAA'' example_tool_p1)) \<and>
   rd_promise (readers (run Rev001 example_env
       ([ReaderError 0, Render] @ ReaderLoad 0 # [Save example_block])
       (snd (onDropHandler ''AAAA'' example_tool_p1))) ! 0) =
     Fulfilled (PData (Map.empty(''url'' \<mapsto> JStr ''data:image/png;base64,AAAA'')))"
proof -
  have h1: "onDropHandler ''AAAA'' example_tool_p1 =
      (0, snd (onDropHandler ''AAAA'' example_tool_p1))"
    by (simp add: example_defs method_defs getprop_def assign_def Let_def)
  have h2: "ReaderLoad 0 \<notin> set [ReaderError 0, Render]" by simp
  have h3: "readAsDataURL example_env ''AAAA'' = ''data:image/png;base64,AAAA''"
    by (simp add: example_env_def)
  from onDropHandler_resolves [OF h1 h2, of Rev001 example_env "[Save example_block]"] h1 h3
  show ?thesis by simp
qed

subsection \<open>C5: what render returns\<close>

text \<open>
  C5. \<open>render\<close> is to return the value of the view callback, called with the plugin
  context, with the image and its promise when the url is nonempty and without them when
  it is empty, as \<open>part_001\<close> does (\<open>render_p1_result\<close>; \<open>render_p2_result\<close> for
  \<open>part_002\<close>). In \<open>part_000\<close> \<open>render\<close> returns \<open>undefined\<close> and never calls the view
  callback, with a url and without one; with the same host and the same saved data,
  \<open>part_001\<close> returns the node of the callback.
\<close>

theorem render_p0_returns_undefined:
  "fst (render_p0 example_env example_tool_p0) = None \<and>
   filter is_View (calls (snd (render_p0 example_env example_tool_p0))) = [] \<and>
   fst (render_p0 example_env example_new_tool_p0) = None \<and>
   filter is_View (calls (snd (render_p0 example_env example_new_tool_p0))) = [] \<and>
   fst (render_p1 example_env example_tool_p1) = Inr ''node''"
  by (simp add: example_defs method_defs getprop_def assign_def Let_def)

subsection \<open>C6: natural width and height\<close>

text \<open>
  C6. In the revisions whose \<open>render\<close> makes the image (\<open>part_001\<close>, \<open>part_002\<close>) the tool
  writes \<open>naturalWidth\<close> and \<open>naturalHeight\<close> in the load handler of an image and nowhere
  else. Whatever the host and the browser do short of the load of an image, renders
  included, both fields stay exactly as they were, present or absent. The load handler of
  any image the tool has made sets the two to the natural width and height of that image.
  A render of a record with a url leaves the record as it is and makes a pending image;
  the load of that image, whatever came in between, sets the two.
\<close>

theorem natural_size_written_only_by_load:
  "(rv \<noteq> Rev000 \<and> (\<forall>a\<in>set as. \<not> is_ImageLoad a) \<and>
      k \<in> {''naturalWidth'', ''naturalHeight''} \<longrightarrow>
      data (run rv e as t) k = data t k) \<and>
   (rv \<noteq> Rev000 \<and> i < length (images t) \<longrightarrow>
      data (step rv e (ImageLoad i w h) t) ''naturalWidth'' = Some (JNum (int w)) \<and>
      data (step rv e (ImageLoad i w h) t) ''naturalHeight'' = Some (JNum (int h))) \<and>
   (rv \<noteq> Rev000 \<and> truthy (getprop (data t) ''url'') \<longrightarrow>
      data (step rv e Render t) = data t \<and>
      images (step rv e Render t) =
        images t @ [\<lparr>img_src = getprop (data t) ''url'', img_promise = Pending\<rparr>] \<and>
      data (step rv e (ImageLoad (length (images t)) w h) (run rv e bs (step rv e Render t)))
         ''naturalWidth'' = Some (JNum (int w)) \<and>
      data (step rv e (ImageLoad (length (images t)) w h) (run rv e bs (step rv e Render t)))
         ''naturalHeight'' = Some (JNum (int h)))"
proof -
  have frame: "rv \<noteq> Rev000 \<and> (\<forall>a\<in>set as. \<not> is_ImageLoad a) \<and>
      k \<in> {''naturalWidth'', ''naturalHeight''} \<longrightarrow>
      data (run rv e as t) k = data t k"
    using run_natural_frame [of rv as k e t] by auto
  have handler: "rv \<noteq> Rev000 \<and> i < length (images t) \<longrightarrow>
      data (step rv e (ImageLoad i w h) t) ''naturalWidth'' = Some (JNum (int w)) \<and>
      data (step rv e (ImageLoad i w h) t) ''naturalHeight'' = Some (JNum (int h))"
    using image_onload_natural [of i t w h] by simp
  have rendered: "rv \<noteq> Rev000 \<and> truthy (getprop (data t) ''url'') \<longrightarrow>
      data (step rv e Render t) = data t \<and>
      images (step rv e Render t) =
        images t @ [\<lparr>img_src = getprop (data t) ''url'', img_promise = Pending\<rparr>] \<and>
      data (step rv e (ImageLoad (length (images t)) w h) (run rv e bs (step rv e Render t)))
         ''naturalWidth'' = Some (JNum (int w)) \<and>
      data (step rv e (ImageLoad (length (images t)) w h) (run rv e bs (step rv e Render t)))
         ''naturalHeight'' = Some (JNum (int h))"
  proof
    let ?t1 = "step rv e Render t"
    assume a: "rv \<noteq> Rev000 \<and> truthy (getprop (data t) ''url'')"
    with render_makes_image [of rv t e]
    have r: "data ?t1 = data t"
      "images ?t1 = images t @ [\<lparr>img_src = getprop (data t) ''url'', img_promise = Pending\<rparr>]"
      by simp_all
    from r(2) have "length (images t) < length (images ?t1)" by simp
    with run_images_length [of ?t1 rv e bs]
    have "length (images t) < length (images (run rv e bs ?t1))" by simp
    from image_onload_natural [OF this, of w h] r
    show "data ?t1 = data t \<and>
      images ?t1 = images t @ [\<lparr>img_src = getprop (data t) ''url'', img_promise = Pending\<rparr>] \<and>
      data (step rv e (ImageLoad (length (images t)) w h) (run rv e bs ?t1))
         ''naturalWidth'' = Some (JNum (int w)) \<and>
      data (step rv e (ImageLoad (length (images t)) w h) (run rv e bs ?t1))
         ''naturalHeight'' = Some (JNum (int h))"
      by simp
  qed
  from frame handler rendered show ?thesis by blast
qed

theorem natural_size_written_only_by_load_witness:
  "truthy (getprop (data example_loaded_tool_p1) ''url'') \<and>
   length (images example_loaded_tool_p1) = 1 \<and>
   data example_loaded_tool_p1 ''naturalWidth'' = Some (JNum 640) \<and>
   data (run Rev001 example_env [Render, ImageError 1, OnPaste (Pattern ''http://h/d.png'')]
          example_loaded_tool_p1) ''naturalWidth'' = Some (JNum 640) \<and>
   data (step Rev001 example_env (ImageLoad 0 800 600) example_loaded_tool_p1)
     ''naturalWidth'' = Some (JNum 800) \<and>
   data (step Rev001 example_env (ImageLoad 1 800 600)
          (run Rev001 example_env [ImageLoad 0 320 200, OnPaste (Pattern ''http://h/d.png'')]
            (step Rev001 example_env Render example_loaded_tool_p1))) ''naturalHeight'' =
     Some (JNum 600)"
proof -
  have h1: "Rev001 \<noteq> Rev000" by simp
  have h2: "truthy (getprop (data example_loaded_tool_p1) ''url'')"
    by (simp add: example_defs method_defs getprop_def assign_def Let_def)
  have h3: "\<forall>a\<in>set [Render, ImageError 1, OnPaste (Pattern ''http://h/d.png'') :: string action].
      \<not> is_ImageLoad a"
    by simp
  have h4: "data example_loaded_tool_p1 ''naturalWidth'' = Some (JNum 640)"
    "length (images example_loaded_tool_p1) = 1"
    by (simp_all add: example_defs method_defs getprop_def assign_def Let_def)
  from natural_size_written_only_by_load
      [of Rev001 "[Render, ImageError 1, OnPaste (Pattern ''http://h/d.png'')]" "''naturalWidth''"
        example_env example_loaded_tool_p1 0 800 600
        "[ImageLoad 0 320 200, OnPaste (Pattern ''http://h/d.png'')]"] h1 h2 h3 h4
  show ?thesis by simp
qed

text \<open>
  As the claim has it, the two fields are absent until the load event of the image fires.
  In \<open>part_001\<close>, once a first image has loaded and another url is pasted, the setter
  merges: the record holds the new url and the sizes of the first image while the image of
  the new url is still pending. Likewise a tool constructed from a saved record that
  carries sizes holds them before its image has loaded.
\<close>

theorem natural_size_present_before_load_counterexample:
  "getprop (data example_repasted_tool_p1) ''url'' = JStr ''http://h/d.png'' \<and>
   img_src (images example_repasted_tool_p1 ! 1) = JStr ''http://h/d.png'' \<and>
   img_promise (images example_repasted_tool_p1 ! 1) = Pending \<and>
   data example_repasted_tool_p1 ''naturalWidth'' = Some (JNum 640) \<and>
   data example_repasted_tool_p1 ''naturalHeight'' = Some (JNum 480) \<and>
   img_promise (images example_reopened_tool_p1 ! 0) = Pending \<and>
   data example_reopened_tool_p1 ''naturalWidth'' = Some (JNum 640) \<and>
   data example_reopened_tool_p1 ''naturalHeight'' = Some (JNum 480)"
  by (simp add: example_defs method_defs getprop_def assign_def Let_def)

subsection \<open>C7: construction\<close>

text \<open>
  C7. On construction the tool records the block index of the host plus one, and no
  action changes it. The constructor of \<open>part_000\<close>, when the host supplied
  \<open>config.initialize\<close>, calls it with the id, the api, that block index, the data and the
  configuration; this is the only call the constructor makes, it stays the first call of
  every run that follows, and no run holds a second call of \<open>initialize\<close>. The constructor
  of \<open>part_001\<close> has no such hook: when it returns, no call of \<open>initialize\<close> has been made,
  and none is made later.
\<close>

theorem constructor_records_index_and_initializes:
  fixes e :: "('n, 'f) env"
  shows
  "blockIndex (run Rev000 e as (constructor_p0 rid d cfg ap)) = Some (currentBlockIndex ap + 1) \<and>
   calls (constructor_p0 rid d cfg ap :: 'f tool) =
     (if initialize cfg
      then [Initialize \<lparr>pluginId = rid, pluginApi = ap,
              pluginBlockIndex = Some (currentBlockIndex ap + 1), pluginData = d,
              pluginUserConfig = cfg, pluginImage = None, pluginImagePromise = None\<rparr>]
      else []) \<and>
   filter is_Initialize (calls (run Rev000 e as (constructor_p0 rid d cfg ap))) =
     calls (constructor_p0 rid d cfg ap :: 'f tool) \<and>
   take (length (calls (constructor_p0 rid d cfg ap :: 'f tool)))
        (calls (run Rev000 e as (constructor_p0 rid d cfg ap))) =
     calls (constructor_p0 rid d cfg ap :: 'f tool) \<and>
   (constructor_p1 e rid d cfg ap = (Inr (), t1) \<longrightarrow>
      blockIndex (run Rev001 e as t1) = Some (currentBlockIndex ap + 1) \<and>
      filter is_Initialize (calls (run Rev001 e as t1)) = [])"
proof -
  let ?t0 = "constructor_p0 rid d cfg ap :: 'f tool"
  have c: "calls ?t0 =
     (if initialize cfg
      then [Initialize \<lparr>pluginId = rid, pluginApi = ap,
              pluginBlockIndex = Some (currentBlockIndex ap + 1), pluginData = d,
              pluginUserConfig = cfg, pluginImage = None, pluginImagePromise = None\<rparr>]
      else [])"
    by (simp add: constructor_p0_def Let_def)
  have b: "blockIndex (run Rev000 e as ?t0) = Some (currentBlockIndex ap + 1)"
    by (simp add: run_blockIndex constructor_p0_def Let_def)
  from run_calls [of Rev000 e as ?t0] obtain cs where
    cs: "calls (run Rev000 e as ?t0) = calls ?t0 @ cs" "filter is_Initialize cs = []" by blast
  have f: "filter is_Initialize (calls (run Rev000 e as ?t0)) = calls ?t0"
    using cs c by simp
  have h: "take (length (calls ?t0)) (calls (run Rev000 e as ?t0)) = calls ?t0"
    using cs by simp
  have p1: "constructor_p1 e rid d cfg ap = (Inr (), t1) \<longrightarrow>
      blockIndex (run Rev001 e as t1) = Some (currentBlockIndex ap + 1) \<and>
      filter is_Initialize (calls (run Rev001 e as t1)) = []"
  proof
    assume a: "constructor_p1 e rid d cfg ap = (Inr (), t1)"
    then have "blockIndex t1 = Some (currentBlockIndex ap + 1)"
      "filter is_Initialize (calls t1) = []"
      by (auto simp: constructor_p1_def set_data_p1_def render_p1_def new_image_def Let_def
          split: prod.splits sum.splits if_splits)
    moreover from run_calls [of Rev001 e as t1] obtain ds where
      "calls (run Rev001 e as t1) = calls t1 @ ds" "filter is_Initialize ds = []" by blast
    ultimately show "blockIndex (run Rev001 e as t1) = Some (currentBlockIndex ap + 1) \<and>
      filter is_Initialize (calls (run Rev001 e as t1)) = []"
      by (simp add: run_blockIndex)
  qed
  from b c f h p1 show ?thesis by blast
qed

theorem constructor_records_index_and_initializes_witness:
  "initialize example_config \<and>
   constructor_p1 example_env ''k3x9'' example_data example_config example_api =
     (Inr (), example_tool_p1) \<and>
   blockIndex (run Rev000 example_env [Render, OnPaste (Tag example_img)] example_tool_p0) =
     Some 4 \<and>
   filter is_Initialize
     (calls (run Rev000 example_env [Render, OnPaste (Tag example_img)] example_tool_p0)) =
     [Initialize \<lparr>pluginId = ''k3x9'', pluginApi = example_api, pluginBlockIndex = Some 4,
        pluginData = example_data, pluginUserConfig = example_config, pluginImage = None,
        pluginImagePromise = None\<rparr>] \<and>
   blockIndex (run Rev001 example_env [Render, OnPaste (Tag example_img)] example_tool_p1) =
     Some 4"
proof -
  have h1: "initialize example_config" "currentBlockIndex example_api + 1 = 4"
    by (simp_all add: example_config_def example_api_def)
  have h2: "constructor_p1 example_env ''k3x9'' example_data example_config example_api =
      (Inr (), example_tool_p1)"
    by (simp add: example_defs method_defs getprop_def assign_def Let_def)
  from constructor_records_index_and_initializes
      [of example_env "[Render, OnPaste (Tag example_img)]" "''k3x9''" example_data
        example_config example_api example_tool_p1] h1 h2
  show ?thesis by (simp add: example_tool_p0_def)
qed

text \<open>
  As the claim has it, a supplied \<open>config.initialize\<close> is called once on construction.
  The constructor of \<open>part_001\<close>, given a configuration with the callback, returns without
  having called it.
\<close>

theorem constructor_p1_no_initialize_counterexample:
  "initialize example_config \<and>
   fst (constructor_p1 example_env ''k3x9'' example_data example_config example_api
          :: (jserror + unit) \<times> string tool) = Inr () \<and>
   filter is_Initialize
     (calls (snd (constructor_p1 example_env ''k3x9'' example_data example_config example_api
          :: (jserror + unit) \<times> string tool))) = []"
  by (simp add: example_defs method_defs getprop_def assign_def Let_def)

subsection \<open>C8: assignment to the data merges\<close>

text \<open>
  C8. In the revisions with the setter (\<open>part_001\<close>, \<open>part_002\<close>) an assignment to the
  data stores the old record overlaid with the assigned one: a property the assigned
  record does not have keeps its value. In particular a paste event, and the load of a
  pasted file, change no property other than \<open>url\<close>, so a recorded \<open>naturalWidth\<close> and
  \<open>naturalHeight\<close> survive them.
\<close>

theorem set_data_merges:
  "data (snd (set_data_p1 e d t)) = data t ++ d \<and>
   data (set_data_p2 e d t) = data t ++ d \<and>
   (k \<notin> dom d \<longrightarrow>
      data (snd (set_data_p1 e d t)) k = data t k \<and> data (set_data_p2 e d t) k = data t k) \<and>
   (rv \<noteq> Rev000 \<and> k \<noteq> ''url'' \<longrightarrow>
      data (step rv e (OnPaste ev) t) k = data t k \<and>
      data (step rv e (ReaderLoad r) t) k = data t k)"
proof -
  have m: "data (snd (set_data_p1 e d t)) = data t ++ d" "data (set_data_p2 e d t) = data t ++ d"
    by (simp_all add: set_data_p1_data set_data_p2_data assign_def)
  have o: "k \<notin> dom d \<longrightarrow>
      data (snd (set_data_p1 e d t)) k = data t k \<and> data (set_data_p2 e d t) k = data t k"
    by (simp add: m map_add_def domIff)
  have p: "rv \<noteq> Rev000 \<and> k \<noteq> ''url'' \<longrightarrow> data (step rv e (OnPaste ev) t) k = data t k"
    by (cases rv; cases ev)
       (simp_all add: method_defs Let_def assign_def map_add_def split: prod.splits sum.splits)
  have q: "rv \<noteq> Rev000 \<and> k \<noteq> ''url'' \<longrightarrow> data (step rv e (ReaderLoad r) t) k = data t k"
    by (cases rv)
       (simp_all add: method_defs Let_def assign_def map_add_def split: prod.splits sum.splits)
  show ?thesis using m o p q by simp
qed

theorem set_data_merges_witness:
  "data example_loaded_tool_p1 ''naturalWidth'' = Some (JNum 640) \<and>
   data (snd (set_data_p1 example_env example_other_url example_loaded_tool_p1))
     ''naturalWidth'' = Some (JNum 640) \<and>
   data (step Rev001 example_env (OnPaste (Tag example_img)) example_loaded_tool_p1)
     ''naturalWidth'' = Some (JNum 640)"
proof -
  have h1: "''naturalWidth'' \<notin> dom example_other_url" by (simp add: example_other_url_def)
  have h2: "Rev001 \<noteq> Rev000 \<and> ''naturalWidth'' \<noteq> ''url''" by simp
  have h3: "data example_loaded_tool_p1 ''naturalWidth'' = Some (JNum 640)"
    by (simp add: example_defs method_defs getprop_def assign_def Let_def)
  from set_data_merges [of example_env example_other_url example_loaded_tool_p1
      "''naturalWidth''" Rev001 "Tag example_img" 0] h1 h2 h3
  show ?thesis by (simp add: map_add_dom_app_simps)
qed

subsection \<open>C9: assignment to the data re-renders\<close>

text \<open>
  C9. In the revisions with the setter an assignment to the data calls the view callback
  once more, with the merged record in the context, when the url of the merged record is
  nonempty, and does not call it when that url is empty.
\<close>

theorem set_data_rerenders:
  "filter is_View (calls (snd (set_data_p1 e d t))) =
     filter is_View (calls t) @
       (if truthy (getprop (data t ++ d) ''url'')
        then [View \<lparr>pluginId = tool_id t, pluginApi = api t, pluginBlockIndex = None,
                pluginData = data t ++ d, pluginUserConfig = config t,
                pluginImage = Some (length (images t)),
                pluginImagePromise = Some (length (images t))\<rparr>]
        else []) \<and>
   filter is_View (calls (set_data_p2 e d t)) =
     filter is_View (calls t) @
       (if truthy (getprop (data t ++ d) ''url'')
        then [View \<lparr>pluginId = tool_id t, pluginApi = api t, pluginBlockIndex = blockIndex t,
                pluginData = data t ++ d, pluginUserConfig = config t,
                pluginImage = Some (length (images t)),
                pluginImagePromise = Some (length (images t))\<rparr>]
        else [])"
  by (simp add: method_defs Let_def assign_def split: prod.splits sum.splits)

theorem set_data_rerenders_witness:
  "truthy (getprop (data example_tool_p1 ++ example_other_url) ''url'') \<and>
   \<not> truthy (getprop (data example_tool_p1 ++ example_empty_url) ''url'') \<and>
   length (filter is_View (calls example_tool_p1)) = 1 \<and>
   length (filter is_View
     (calls (snd (set_data_p1 example_env example_other_url example_tool_p1)))) = 2 \<and>
   length (filter is_View
     (calls (snd (set_data_p1 example_env example_empty_url example_tool_p1)))) = 1"
proof -
  have h1: "truthy (getprop (data example_tool_p1 ++ example_other_url) ''url'')"
    "\<not> truthy (getprop (data example_tool_p1 ++ example_empty_url) ''url'')"
    by (simp_all add: getprop_def example_other_url_def example_empty_url_def)
  have h2: "length (filter is_View (calls example_tool_p1)) = 1"
    by (simp add: example_defs method_defs getprop_def assign_def Let_def)
  from set_data_rerenders [of example_env example_other_url example_tool_p1]
    set_data_rerenders [of example_env example_empty_url example_tool_p1]
    h1 h2
  show ?thesis by simp
qed

subsection \<open>C10: a failed read\<close>

text \<open>
  C10. The promise that \<open>onDropHandler\<close> returns is never rejected, whatever happens
  afterwards; and as long as the load event of its reader has not been delivered, the
  error event included, it stays pending.
\<close>

theorem onDropHandler_never_rejects:
  assumes "onDropHandler file t = (r, t1)"
  shows "rd_promise (readers (run rv e as t1) ! r) \<noteq> Rejected \<and>
         (ReaderLoad r \<notin> set as \<longrightarrow> rd_promise (readers (run rv e as t1) ! r) = Pending)"
proof -
  from onDropHandler_new [OF assms]
  have new: "r < length (readers t1)" "rd_promise (readers t1 ! r) = Pending" by simp_all
  from run_reader_not_rejected [OF new(1), of rv e as] new(2)
  have "rd_promise (readers (run rv e as t1) ! r) \<noteq> Rejected" by simp
  moreover have "ReaderLoad r \<notin> set as \<longrightarrow> rd_promise (readers (run rv e as t1) ! r) = Pending"
    using run_reader_pending [OF new(1) new(2), of as rv e] by simp
  ultimately show ?thesis by simp
qed

theorem onDropHandler_never_rejects_witness:
  "onDropHandler ''AAAA'' example_tool_p0 = (0, snd (onDropHandler ''AAAA'' example_tool_p0)) \<and>
   rd_promise (readers (run Rev000 example_env [ReaderError 0, OnPaste (Tag example_img)]
       (snd (onDropHandler ''AAAA'' example_tool_p0))) ! 0) = Pending"
proof -
  have h1: "onDropHandler ''AAAA'' example_tool_p0 =
      (0, snd (onDropHandler ''AAAA'' example_tool_p0))"
    by (simp add: onDropHandler_def example_defs Let_def)
  have h2: "ReaderLoad 0 \<notin> set [ReaderError 0, OnPaste (Tag example_img)]" by simp
  from onDropHandler_never_rejects [OF h1, of Rev000 example_env
      "[ReaderError 0, OnPaste (Tag example_img)]"] h1 h2
  show ?thesis by simp
qed

end
